theory Spec2Isabelle
  imports Main "HOL-Library.Word"
begin

section \<open>Records of the three stores\<close>

text \<open>
  Each store is a JSON array of flat objects. A store is modelled by the list of
  records that \<^verbatim>\<open>load_all\<close> returns for its file, in file order;
  \<^verbatim>\<open>save_all\<close> replaces that list. Duplicated ids are possible in a
  list (uniqueness is only checked when a record is created), so a list and not a map.
  Python integers are unbounded, hence \<^typ>\<open>int\<close>.
\<close>

record hotel =
  hotel_id :: string
  hotel_name :: string
  location :: string
  rooms :: int
  rooms_available :: int

record customer =
  customer_id :: string
  customer_name :: string
  email :: string

record reservation =
  reservation_id :: string
  res_customer_id :: string
  res_hotel_id :: string

text \<open>
  Every failure of the source prints a message and returns \<^verbatim>\<open>None\<close> or
  \<^verbatim>\<open>False\<close>. The model keeps which message was printed as the error value;
  \<open>Inl e\<close> stands for the absent or false result, \<open>Inr v\<close> for the instance or
  \<^verbatim>\<open>True\<close>.
\<close>

datatype error =
    Required
  | InvalidRooms
  | InvalidEmail
  | AlreadyExists
  | CustomerNotFound
  | HotelNotFound
  | ReservationNotFound
  | NoRooms
  | AllAvailable

text \<open>
  The \<^verbatim>\<open>rooms\<close> argument is tested with \<^verbatim>\<open>isinstance(rooms, int)\<close>,
  so the model distinguishes an integer argument from any other Python value.
\<close>

datatype rooms_arg = IntArg int | NotAnInt

section \<open>Hotel store\<close>

text \<open>\<^verbatim>\<open>Hotel.__init__\<close>: a new hotel has all its rooms available.\<close>

definition Hotel :: "string \<Rightarrow> string \<Rightarrow> string \<Rightarrow> int \<Rightarrow> hotel" where
  "Hotel hid nm loc n =
     \<lparr>hotel_id = hid, hotel_name = nm, location = loc, rooms = n, rooms_available = n\<rparr>"

definition validate_rooms :: "rooms_arg \<Rightarrow> bool" where
  "validate_rooms v = (case v of NotAnInt \<Rightarrow> False | IntArg n \<Rightarrow> \<not> n \<le> 0)"

definition create_hotel ::
  "string \<Rightarrow> string \<Rightarrow> string \<Rightarrow> rooms_arg \<Rightarrow> hotel list \<Rightarrow> (error + hotel) \<times> hotel list" where
  "create_hotel hid nm loc rm records =
     (if hid = [] \<or> nm = [] then (Inl Required, records)
      else case rm of
        NotAnInt \<Rightarrow> (Inl InvalidRooms, records)
      | IntArg n \<Rightarrow>
          if n \<le> 0 then (Inl InvalidRooms, records)
          else if list_ex (\<lambda>r. hotel_id r = hid) records then (Inl AlreadyExists, records)
          else (Inr (Hotel hid nm loc n), records @ [Hotel hid nm loc n]))"

definition delete_hotel :: "string \<Rightarrow> hotel list \<Rightarrow> (error + unit) \<times> hotel list" where
  "delete_hotel hid records =
     (let kept = filter (\<lambda>r. hotel_id r \<noteq> hid) records
      in if length kept = length records then (Inl HotelNotFound, records)
         else (Inr (), kept))"

text \<open>
  \<^verbatim>\<open>display_hotel\<close> returns the first record with the id; the loops of
  \<^verbatim>\<open>modify_hotel\<close>, \<^verbatim>\<open>reserve_room\<close> and
  \<^verbatim>\<open>cancel_reservation\<close> stop at that same record.
\<close>

fun display_hotel :: "string \<Rightarrow> hotel list \<Rightarrow> hotel option" where
  "display_hotel hid [] = None"
| "display_hotel hid (r # rs) = (if hotel_id r = hid then Some r else display_hotel hid rs)"

text \<open>The keyword arguments of \<^verbatim>\<open>modify_hotel\<close>: each key is present or not.\<close>

record hotel_kwargs =
  kw_name :: "string option"
  kw_location :: "string option"
  kw_rooms :: "rooms_arg option"

text \<open>
  The loop \<^verbatim>\<open>for key in ("name", "location", "rooms")\<close>; it runs after
  validation, so the rooms value is an integer here.
\<close>

definition set_hotel_keys :: "hotel_kwargs \<Rightarrow> hotel \<Rightarrow> hotel" where
  "set_hotel_keys kw r =
     r\<lparr>hotel_name := (case kw_name kw of None \<Rightarrow> hotel_name r | Some v \<Rightarrow> v),
       location := (case kw_location kw of None \<Rightarrow> location r | Some v \<Rightarrow> v),
       rooms := (case kw_rooms kw of Some (IntArg n) \<Rightarrow> n | _ \<Rightarrow> rooms r)\<rparr>"

text \<open>
  The scans return the list to be saved, or the error printed; on an error nothing is
  saved.
\<close>

fun modify_hotel_scan :: "string \<Rightarrow> hotel_kwargs \<Rightarrow> hotel list \<Rightarrow> error + hotel list" where
  "modify_hotel_scan hid kw [] = Inl HotelNotFound"
| "modify_hotel_scan hid kw (r # rs) =
     (if hotel_id r = hid then
        (case kw_rooms kw of
           None \<Rightarrow> Inr (set_hotel_keys kw r # rs)
         | Some v \<Rightarrow>
             if \<not> validate_rooms v then Inl InvalidRooms
             else (case v of
                     NotAnInt \<Rightarrow> Inl InvalidRooms
                   | IntArg n \<Rightarrow>
                       let diff = n - rooms r;
                           r' = r\<lparr>rooms_available := max 0 (rooms_available r + diff)\<rparr>
                       in Inr (set_hotel_keys kw r' # rs)))
      else (case modify_hotel_scan hid kw rs of
              Inl e \<Rightarrow> Inl e
            | Inr rs' \<Rightarrow> Inr (r # rs')))"

definition modify_hotel :: "string \<Rightarrow> hotel_kwargs \<Rightarrow> hotel list \<Rightarrow> (error + unit) \<times> hotel list" where
  "modify_hotel hid kw records =
     (case modify_hotel_scan hid kw records of
        Inl e \<Rightarrow> (Inl e, records)
      | Inr records' \<Rightarrow> (Inr (), records'))"

fun reserve_room_scan :: "string \<Rightarrow> hotel list \<Rightarrow> error + hotel list" where
  "reserve_room_scan hid [] = Inl HotelNotFound"
| "reserve_room_scan hid (r # rs) =
     (if hotel_id r = hid then
        (if rooms_available r \<le> 0 then Inl NoRooms
         else Inr (r\<lparr>rooms_available := rooms_available r - 1\<rparr> # rs))
      else (case reserve_room_scan hid rs of
              Inl e \<Rightarrow> Inl e
            | Inr rs' \<Rightarrow> Inr (r # rs')))"

definition reserve_room :: "string \<Rightarrow> hotel list \<Rightarrow> (error + unit) \<times> hotel list" where
  "reserve_room hid records =
     (case reserve_room_scan hid records of
        Inl e \<Rightarrow> (Inl e, records)
      | Inr records' \<Rightarrow> (Inr (), records'))"

fun hotel_cancel_scan :: "string \<Rightarrow> hotel list \<Rightarrow> error + hotel list" where
  "hotel_cancel_scan hid [] = Inl HotelNotFound"
| "hotel_cancel_scan hid (r # rs) =
     (if hotel_id r = hid then
        (if rooms_available r \<ge> rooms r then Inl AllAvailable
         else Inr (r\<lparr>rooms_available := rooms_available r + 1\<rparr> # rs))
      else (case hotel_cancel_scan hid rs of
              Inl e \<Rightarrow> Inl e
            | Inr rs' \<Rightarrow> Inr (r # rs')))"

text \<open>\<^verbatim>\<open>Hotel.cancel_reservation\<close>, the release of one room.\<close>

definition hotel_cancel_reservation :: "string \<Rightarrow> hotel list \<Rightarrow> (error + unit) \<times> hotel list" where
  "hotel_cancel_reservation hid records =
     (case hotel_cancel_scan hid records of
        Inl e \<Rightarrow> (Inl e, records)
      | Inr records' \<Rightarrow> (Inr (), records'))"

text \<open>The capacity invariant of the data model.\<close>

definition hotel_inv :: "hotel \<Rightarrow> bool" where
  "hotel_inv h = (0 \<le> rooms_available h \<and> rooms_available h \<le> rooms h)"

section \<open>Customer store\<close>

text \<open>\<^verbatim>\<open>_validate_email\<close>: the email is not empty and contains an at sign.\<close>

definition validate_email :: "string \<Rightarrow> bool" where
  "validate_email em = (\<not> (em = [] \<or> CHR ''@'' \<notin> set em))"

definition Customer :: "string \<Rightarrow> string \<Rightarrow> string \<Rightarrow> customer" where
  "Customer cid nm em = \<lparr>customer_id = cid, customer_name = nm, email = em\<rparr>"

definition create_customer ::
  "string \<Rightarrow> string \<Rightarrow> string \<Rightarrow> customer list \<Rightarrow> (error + customer) \<times> customer list" where
  "create_customer cid nm em records =
     (if cid = [] \<or> nm = [] then (Inl Required, records)
      else if \<not> validate_email em then (Inl InvalidEmail, records)
      else if list_ex (\<lambda>r. customer_id r = cid) records then (Inl AlreadyExists, records)
      else (Inr (Customer cid nm em), records @ [Customer cid nm em]))"

definition delete_customer :: "string \<Rightarrow> customer list \<Rightarrow> (error + unit) \<times> customer list" where
  "delete_customer cid records =
     (let kept = filter (\<lambda>r. customer_id r \<noteq> cid) records
      in if length kept = length records then (Inl CustomerNotFound, records)
         else (Inr (), kept))"

fun display_customer :: "string \<Rightarrow> customer list \<Rightarrow> customer option" where
  "display_customer cid [] = None"
| "display_customer cid (r # rs) =
     (if customer_id r = cid then Some r else display_customer cid rs)"

record customer_kwargs =
  ckw_name :: "string option"
  ckw_email :: "string option"

text \<open>The loop \<^verbatim>\<open>for key in ("name", "email")\<close>.\<close>

definition set_customer_keys :: "customer_kwargs \<Rightarrow> customer \<Rightarrow> customer" where
  "set_customer_keys kw r =
     r\<lparr>customer_name := (case ckw_name kw of None \<Rightarrow> customer_name r | Some v \<Rightarrow> v),
       email := (case ckw_email kw of None \<Rightarrow> email r | Some v \<Rightarrow> v)\<rparr>"

fun modify_customer_scan ::
  "string \<Rightarrow> customer_kwargs \<Rightarrow> customer list \<Rightarrow> error + customer list" where
  "modify_customer_scan cid kw [] = Inl CustomerNotFound"
| "modify_customer_scan cid kw (r # rs) =
     (if customer_id r = cid then
        (case ckw_email kw of
           None \<Rightarrow> Inr (set_customer_keys kw r # rs)
         | Some em \<Rightarrow>
             if \<not> validate_email em then Inl InvalidEmail
             else Inr (set_customer_keys kw r # rs))
      else (case modify_customer_scan cid kw rs of
              Inl e \<Rightarrow> Inl e
            | Inr rs' \<Rightarrow> Inr (r # rs')))"

definition modify_customer ::
  "string \<Rightarrow> customer_kwargs \<Rightarrow> customer list \<Rightarrow> (error + unit) \<times> customer list" where
  "modify_customer cid kw records =
     (case modify_customer_scan cid kw records of
        Inl e \<Rightarrow> (Inl e, records)
      | Inr records' \<Rightarrow> (Inr (), records'))"

section \<open>Reservation store\<close>

text \<open>
  The reservation operations read and write up to three files, so their state is the
  contents of all three.
\<close>

record stores =
  customers_json :: "customer list"
  hotels_json :: "hotel list"
  reservations_json :: "reservation list"

definition Reservation :: "string \<Rightarrow> string \<Rightarrow> string \<Rightarrow> reservation" where
  "Reservation rid cid hid = \<lparr>reservation_id = rid, res_customer_id = cid, res_hotel_id = hid\<rparr>"

text \<open>
  \<^verbatim>\<open>create_reservation\<close> checks, in this order: the id, the reservation file,
  the customer file, the hotel file; then it calls \<^verbatim>\<open>Hotel.reserve_room\<close>,
  which loads and saves the hotel file itself, and only then appends and saves the
  reservation.
\<close>

definition create_reservation ::
  "string \<Rightarrow> string \<Rightarrow> string \<Rightarrow> stores \<Rightarrow> (error + reservation) \<times> stores" where
  "create_reservation rid cid hid st =
     (if rid = [] then (Inl Required, st)
      else let records = reservations_json st in
        if list_ex (\<lambda>r. reservation_id r = rid) records then (Inl AlreadyExists, st)
        else if \<not> list_ex (\<lambda>c. customer_id c = cid) (customers_json st)
          then (Inl CustomerNotFound, st)
        else if \<not> list_ex (\<lambda>h. hotel_id h = hid) (hotels_json st)
          then (Inl HotelNotFound, st)
        else (case reserve_room hid (hotels_json st) of
                (Inl e, hs) \<Rightarrow> (Inl e, st\<lparr>hotels_json := hs\<rparr>)
              | (Inr u, hs) \<Rightarrow>
                  (Inr (Reservation rid cid hid),
                   st\<lparr>hotels_json := hs,
                      reservations_json := records @ [Reservation rid cid hid]\<rparr>)))"

text \<open>The search loop of \<^verbatim>\<open>Reservation.cancel_reservation\<close>, left by \<^verbatim>\<open>break\<close>.\<close>

fun find_reservation :: "string \<Rightarrow> reservation list \<Rightarrow> reservation option" where
  "find_reservation rid [] = None"
| "find_reservation rid (r # rs) =
     (if reservation_id r = rid then Some r else find_reservation rid rs)"

text \<open>
  \<^verbatim>\<open>Reservation.cancel_reservation\<close>: the value returned by
  \<^verbatim>\<open>Hotel.cancel_reservation\<close> is dropped; only the hotel file it leaves
  behind matters.
\<close>

definition cancel_reservation :: "string \<Rightarrow> stores \<Rightarrow> (error + unit) \<times> stores" where
  "cancel_reservation rid st =
     (let records = reservations_json st in
      case find_reservation rid records of
        None \<Rightarrow> (Inl ReservationNotFound, st)
      | Some target \<Rightarrow>
          let hs = snd (hotel_cancel_reservation (res_hotel_id target) (hotels_json st))
          in (Inr (),
              st\<lparr>hotels_json := hs,
                 reservations_json := filter (\<lambda>r. reservation_id r \<noteq> rid) records\<rparr>))"

section \<open>Loading a store from disk\<close>

text \<open>
  \<^verbatim>\<open>load_all\<close> is the same in the three classes up to the default file name. It
  tests \<^verbatim>\<open>os.path.exists\<close>, opens the file as UTF-8 text, hands it to
  \<^verbatim>\<open>json.load\<close>, and catches \<^verbatim>\<open>json.JSONDecodeError\<close> and
  \<^verbatim>\<open>IOError\<close>, nothing else. The disk maps a path to what is there: nothing, something
  that \<^verbatim>\<open>open\<close> refuses (a directory, a file without read permission), or
  the bytes of a file. Reading text decodes the bytes strictly and raises
  \<^verbatim>\<open>UnicodeDecodeError\<close> on a malformed sequence. The JSON parser is the
  library's, so it is a parameter \<open>json_loads\<close>: it is given the code points of the text
  and returns \<open>None\<close> where the library raises \<^verbatim>\<open>JSONDecodeError\<close>. A parsed
  value is a list of records or some other JSON value.
\<close>

type_synonym byte = "8 word"

datatype py_exception = JSONDecodeError | IOError | UnicodeDecodeError

datatype disk_entry = Unopenable | Content "byte list"

type_synonym disk = "string \<Rightarrow> disk_entry option"

datatype 'r loaded = Records "'r list" | Other

text \<open>A continuation byte of a multi-byte sequence.\<close>

definition continuation :: "byte \<Rightarrow> bool" where
  "continuation c = (0x80 \<le> c \<and> c \<le> 0xBF)"

text \<open>
  Strict UTF-8 decoding as the text layer does it: no overlong forms, no surrogates, nothing
  above U+10FFFF. \<open>None\<close> stands for \<^verbatim>\<open>UnicodeDecodeError\<close>.
\<close>

fun utf8_decode :: "byte list \<Rightarrow> nat list option" where
  "utf8_decode [] = Some []"
| "utf8_decode (b # bs) =
     (if b < 0x80 then map_option ((#) (unat b)) (utf8_decode bs)
      else if 0xC2 \<le> b \<and> b \<le> 0xDF then
        (case bs of
           c1 # rest \<Rightarrow>
             if continuation c1
             then map_option ((#) ((unat b - 0xC0) * 64 + (unat c1 - 0x80))) (utf8_decode rest)
             else None
         | _ \<Rightarrow> None)
      else if 0xE0 \<le> b \<and> b \<le> 0xEF then
        (case bs of
           c1 # c2 # rest \<Rightarrow>
             if continuation c1 \<and> continuation c2
                \<and> (if b = 0xE0 then 0xA0 \<le> c1 else True)
                \<and> (if b = 0xED then c1 \<le> 0x9F else True)
             then map_option
                    ((#) (((unat b - 0xE0) * 64 + (unat c1 - 0x80)) * 64 + (unat c2 - 0x80)))
                    (utf8_decode rest)
             else None
         | _ \<Rightarrow> None)
      else if 0xF0 \<le> b \<and> b \<le> 0xF4 then
        (case bs of
           c1 # c2 # c3 # rest \<Rightarrow>
             if continuation c1 \<and> continuation c2 \<and> continuation c3
                \<and> (if b = 0xF0 then 0x90 \<le> c1 else True)
                \<and> (if b = 0xF4 then c1 \<le> 0x8F else True)
             then map_option
                    ((#) ((((unat b - 0xF0) * 64 + (unat c1 - 0x80)) * 64 + (unat c2 - 0x80)) * 64
                          + (unat c3 - 0x80)))
                    (utf8_decode rest)
             else None
         | _ \<Rightarrow> None)
      else None)"

text \<open>The body of the \<^verbatim>\<open>try\<close> block: open, read and parse.\<close>

definition read_json :: "(nat list \<Rightarrow> 'r loaded option) \<Rightarrow> disk_entry \<Rightarrow> py_exception + 'r loaded" where
  "read_json json_loads entry =
     (case entry of
        Unopenable \<Rightarrow> Inl IOError
      | Content bs \<Rightarrow>
          (case utf8_decode bs of
             None \<Rightarrow> Inl UnicodeDecodeError
           | Some text \<Rightarrow>
               (case json_loads text of
                  None \<Rightarrow> Inl JSONDecodeError
                | Some v \<Rightarrow> Inr v)))"

text \<open>
  \<^verbatim>\<open>path = file_path or DATA_FILE\<close>: an absent or empty path means the default.
\<close>

definition load_all ::
  "string \<Rightarrow> (nat list \<Rightarrow> 'r loaded option) \<Rightarrow> disk \<Rightarrow> string option \<Rightarrow> py_exception + 'r loaded" where
  "load_all data_file json_loads files file_path =
     (let path = (case file_path of
                    None \<Rightarrow> data_file
                  | Some p \<Rightarrow> if p = [] then data_file else p)
      in case files path of
           None \<Rightarrow> Inr (Records [])
         | Some entry \<Rightarrow>
             (case read_json json_loads entry of
                Inl JSONDecodeError \<Rightarrow> Inr (Records [])
              | Inl IOError \<Rightarrow> Inr (Records [])
              | Inl e \<Rightarrow> Inl e
              | Inr v \<Rightarrow> Inr v))"

definition Customer_load_all ::
  "(nat list \<Rightarrow> customer loaded option) \<Rightarrow> disk \<Rightarrow> string option \<Rightarrow> py_exception + customer loaded" where
  "Customer_load_all = load_all ''customers.json''"

definition Hotel_load_all ::
  "(nat list \<Rightarrow> hotel loaded option) \<Rightarrow> disk \<Rightarrow> string option \<Rightarrow> py_exception + hotel loaded" where
  "Hotel_load_all = load_all ''hotels.json''"

definition Reservation_load_all ::
  "(nat list \<Rightarrow> reservation loaded option) \<Rightarrow> disk \<Rightarrow> string option \<Rightarrow> py_exception + reservation loaded" where
  "Reservation_load_all = load_all ''reservations.json''"

section \<open>Example data\<close>

text \<open>
  Records and stores on which the theorems below are run: hotels within capacity
  (\<open>grand\<close> with one room taken, \<open>plaza\<close> with none taken, \<open>sold_out\<close>),
  two hotel records outside the range \<open>0..rooms\<close> as a hand-edited file could hold them
  (\<open>overfull\<close>, \<open>debt\<close>), and disks whose files hold a byte that is not UTF-8
  (\<open>garbled\<close>) or text that is not JSON (\<open>scribbled\<close>).
\<close>

definition grand :: hotel where
  "grand = \<lparr>hotel_id = ''H1'', hotel_name = ''Grand'', location = ''CDMX'',
            rooms = 2, rooms_available = 1\<rparr>"

definition plaza :: hotel where
  "plaza = \<lparr>hotel_id = ''H2'', hotel_name = ''Plaza'', location = ''GDL'',
            rooms = 5, rooms_available = 5\<rparr>"

definition overfull :: hotel where
  "overfull = \<lparr>hotel_id = ''H9'', hotel_name = ''Mar'', location = ''ACA'',
               rooms = 5, rooms_available = 10\<rparr>"

definition rooms3 :: hotel_kwargs where
  "rooms3 = \<lparr>kw_name = None, kw_location = Some ''MTY'', kw_rooms = Some (IntArg 3)\<rparr>"

definition ana :: customer where
  "ana = \<lparr>customer_id = ''C1'', customer_name = ''Ana'', email = ''ana@example.com''\<rparr>"

definition luis :: customer where
  "luis = \<lparr>customer_id = ''C2'', customer_name = ''Luis'', email = ''luis@example.com''\<rparr>"

definition debt :: hotel where
  "debt = \<lparr>hotel_id = ''H7'', hotel_name = ''Luna'', location = ''PUE'',
           rooms = 2, rooms_available = - 1\<rparr>"


definition debt_store :: stores where
  "debt_store = \<lparr>customers_json = [ana], hotels_json = [debt], reservations_json = []\<rparr>"

definition booking :: reservation where
  "booking = \<lparr>reservation_id = ''R1'', res_customer_id = ''C1'', res_hotel_id = ''H2''\<rparr>"

definition stay :: reservation where
  "stay = \<lparr>reservation_id = ''R2'', res_customer_id = ''C1'', res_hotel_id = ''H1''\<rparr>"

definition full_store :: stores where
  "full_store = \<lparr>customers_json = [ana], hotels_json = [plaza, grand],
                  reservations_json = [booking, stay]\<rparr>"

definition sold_out :: hotel where
  "sold_out = \<lparr>hotel_id = ''H5'', hotel_name = ''Faro'', location = ''VER'',
               rooms = 1, rooms_available = 0\<rparr>"

definition sold_out_store :: stores where
  "sold_out_store = \<lparr>customers_json = [ana], hotels_json = [sold_out],
                      reservations_json = []\<rparr>"

definition garbled :: disk where
  "garbled path = Some (Content [0xFF])"

definition reject_all :: "nat list \<Rightarrow> 'r loaded option" where
  "reject_all text = None"

definition scribbled :: disk where
  "scribbled path = Some (Content [0x7B, 0x69, 0x6E, 0x76])"

definition new_email :: customer_kwargs where
  "new_email = \<lparr>ckw_name = None, ckw_email = Some ''ana@hotel.mx''\<rparr>"

definition bad_email :: customer_kwargs where
  "bad_email = \<lparr>ckw_name = Some ''Anna'', ckw_email = Some ''nowhere''\<rparr>"

section \<open>Hotel store: the capacity invariant\<close>

lemma modify_hotel_scan_inv:
  "list_all hotel_inv rs \<Longrightarrow> modify_hotel_scan hid kw rs = Inr rs' \<Longrightarrow> list_all hotel_inv rs'"
proof (induction rs arbitrary: rs')
  case Nil
  then show ?case by simp
next
  case (Cons r rs)
  show ?case
  proof (cases "hotel_id r = hid")
    case True
    with Cons.prems show ?thesis
      by (auto simp: hotel_inv_def set_hotel_keys_def validate_rooms_def Let_def
               split: option.splits rooms_arg.splits if_splits)
  next
    case False
    with Cons show ?thesis
      by (auto split: sum.splits)
  qed
qed

lemma reserve_room_scan_inv:
  "list_all hotel_inv rs \<Longrightarrow> reserve_room_scan hid rs = Inr rs' \<Longrightarrow> list_all hotel_inv rs'"
proof (induction rs arbitrary: rs')
  case Nil
  then show ?case by simp
next
  case (Cons r rs)
  then show ?case
    by (auto simp: hotel_inv_def split: if_splits sum.splits)
qed

lemma hotel_cancel_scan_inv:
  "list_all hotel_inv rs \<Longrightarrow> hotel_cancel_scan hid rs = Inr rs' \<Longrightarrow> list_all hotel_inv rs'"
proof (induction rs arbitrary: rs')
  case Nil
  then show ?case by simp
next
  case (Cons r rs)
  then show ?case
    by (auto simp: hotel_inv_def split: if_splits sum.splits)
qed

lemma create_hotel_inv:
  "list_all hotel_inv rs \<Longrightarrow> list_all hotel_inv (snd (create_hotel hid nm loc rm rs))"
  by (auto simp: create_hotel_def hotel_inv_def Hotel_def split: rooms_arg.splits)

lemma modify_hotel_inv:
  "list_all hotel_inv rs \<Longrightarrow> list_all hotel_inv (snd (modify_hotel hid kw rs))"
  by (auto simp: modify_hotel_def split: sum.splits dest: modify_hotel_scan_inv)

lemma reserve_room_inv:
  "list_all hotel_inv rs \<Longrightarrow> list_all hotel_inv (snd (reserve_room hid rs))"
  by (auto simp: reserve_room_def split: sum.splits dest: reserve_room_scan_inv)

lemma hotel_cancel_reservation_inv:
  "list_all hotel_inv rs \<Longrightarrow> list_all hotel_inv (snd (hotel_cancel_reservation hid rs))"
  by (auto simp: hotel_cancel_reservation_def split: sum.splits dest: hotel_cancel_scan_inv)

lemma delete_hotel_inv:
  "list_all hotel_inv rs \<Longrightarrow> list_all hotel_inv (snd (delete_hotel hid rs))"
  by (auto simp: delete_hotel_def Let_def list_all_iff)

text \<open>
  Claim C1. If every hotel record of the store satisfies
  \<open>0 \<le> rooms_available \<le> rooms\<close>, then after \<^verbatim>\<open>create_hotel\<close>,
  \<^verbatim>\<open>modify_hotel\<close> (with any keyword arguments, a rooms change included),
  \<^verbatim>\<open>reserve_room\<close>, \<^verbatim>\<open>cancel_reservation\<close> or
  \<^verbatim>\<open>delete_hotel\<close>, whether the call succeeds or fails, every record of the
  resulting store still satisfies it.
\<close>

theorem hotel_store_invariant:
  assumes "list_all hotel_inv records"
  shows "list_all hotel_inv (snd (create_hotel new_id nm loc rm records))
       \<and> list_all hotel_inv (snd (modify_hotel hid kw records))
       \<and> list_all hotel_inv (snd (reserve_room hid' records))
       \<and> list_all hotel_inv (snd (hotel_cancel_reservation hid'' records))
       \<and> list_all hotel_inv (snd (delete_hotel old_id records))"
  using assms
  by (simp add: create_hotel_inv modify_hotel_inv reserve_room_inv
        hotel_cancel_reservation_inv delete_hotel_inv)

text \<open>A store of two hotels, both within capacity, on which every operation is run.\<close>

theorem hotel_store_invariant_witness:
  "list_all hotel_inv [plaza, grand]
   \<and> list_all hotel_inv (snd (create_hotel ''H3'' ''Sol'' ''MID'' (IntArg 4) [plaza, grand]))
   \<and> list_all hotel_inv (snd (modify_hotel ''H1'' rooms3 [plaza, grand]))
   \<and> list_all hotel_inv (snd (reserve_room ''H1'' [plaza, grand]))
   \<and> list_all hotel_inv (snd (hotel_cancel_reservation ''H1'' [plaza, grand]))
   \<and> list_all hotel_inv (snd (delete_hotel ''H2'' [plaza, grand]))"
proof -
  have inv: "list_all hotel_inv [plaza, grand]"
    by (simp add: hotel_inv_def plaza_def grand_def)
  show ?thesis
    using inv hotel_store_invariant [OF inv, of "''H3''" "''Sol''" "''MID''" "IntArg 4"
        "''H1''" rooms3 "''H1''" "''H1''" "''H2''"]
    by simp
qed

section \<open>Hotel store: the first record with an id\<close>

lemma display_hotel_split:
  "display_hotel hid rs = Some h \<Longrightarrow>
   \<exists>pre post. rs = pre @ h # post \<and> (\<forall>x\<in>set pre. hotel_id x \<noteq> hid) \<and> hotel_id h = hid"
proof (induction rs)
  case Nil
  then show ?case by simp
next
  case (Cons r rs)
  show ?case
  proof (cases "hotel_id r = hid")
    case True
    with Cons.prems have "r = h" by simp
    with True have "r # rs = [] @ h # rs \<and> (\<forall>x\<in>set []. hotel_id x \<noteq> hid) \<and> hotel_id h = hid"
      by simp
    then show ?thesis by blast
  next
    case False
    with Cons obtain pre post where
      "rs = pre @ h # post" "\<forall>x\<in>set pre. hotel_id x \<noteq> hid" "hotel_id h = hid"
      by auto
    with False have "r # rs = (r # pre) @ h # post \<and> (\<forall>x\<in>set (r # pre). hotel_id x \<noteq> hid)
        \<and> hotel_id h = hid"
      by simp
    then show ?thesis by blast
  qed
qed

lemma display_hotel_first:
  "\<forall>x\<in>set pre. hotel_id x \<noteq> hid \<Longrightarrow> hotel_id h = hid \<Longrightarrow>
   display_hotel hid (pre @ h # post) = Some h"
  by (induction pre) auto


lemma reserve_room_scan_first:
  "\<forall>x\<in>set pre. hotel_id x \<noteq> hid \<Longrightarrow> hotel_id h = hid \<Longrightarrow>
   reserve_room_scan hid (pre @ h # post) =
     (if rooms_available h \<le> 0 then Inl NoRooms
      else Inr (pre @ h\<lparr>rooms_available := rooms_available h - 1\<rparr> # post))"
  by (induction pre) auto

lemma hotel_cancel_scan_first:
  "\<forall>x\<in>set pre. hotel_id x \<noteq> hid \<Longrightarrow> hotel_id h = hid \<Longrightarrow>
   hotel_cancel_scan hid (pre @ h # post) =
     (if rooms_available h \<ge> rooms h then Inl AllAvailable
      else Inr (pre @ h\<lparr>rooms_available := rooms_available h + 1\<rparr> # post))"
  by (induction pre) auto

lemma modify_hotel_scan_first:
  "\<forall>x\<in>set pre. hotel_id x \<noteq> hid \<Longrightarrow> hotel_id h = hid \<Longrightarrow> kw_rooms kw = Some (IntArg n) \<Longrightarrow>
   0 < n \<Longrightarrow>
   modify_hotel_scan hid kw (pre @ h # post) =
     Inr (pre @ set_hotel_keys kw (h\<lparr>rooms_available := max 0 (rooms_available h + (n - rooms h))\<rparr>) # post)"
  by (induction pre) (auto simp: validate_rooms_def Let_def)

lemma hotel_scan_None:
  "display_hotel hid rs = None \<Longrightarrow> reserve_room_scan hid rs = Inl HotelNotFound"
  "display_hotel hid rs = None \<Longrightarrow> hotel_cancel_scan hid rs = Inl HotelNotFound"
  "display_hotel hid rs = None \<Longrightarrow> modify_hotel_scan hid kw rs = Inl HotelNotFound"
  by (induction rs) (auto split: if_splits)

section \<open>Hotel store: reserve and release\<close>

text \<open>
  Claim C4. If the hotel with the given id exists (the first record with that id),
  satisfies \<open>0 \<le> rooms_available \<le> rooms\<close> and has a room available, then
  \<^verbatim>\<open>reserve_room\<close> followed by \<^verbatim>\<open>cancel_reservation\<close> on the same
  id both succeed, and the store is again the original one.
\<close>

theorem reserve_then_cancel_restores:
  assumes "display_hotel hid records = Some h"
    and "hotel_inv h"
    and "0 < rooms_available h"
  shows "fst (reserve_room hid records) = Inr ()
       \<and> fst (hotel_cancel_reservation hid (snd (reserve_room hid records))) = Inr ()
       \<and> snd (hotel_cancel_reservation hid (snd (reserve_room hid records))) = records"
proof -
  from assms(1) obtain pre post where
    split: "records = pre @ h # post" and pre: "\<forall>x\<in>set pre. hotel_id x \<noteq> hid"
    and h: "hotel_id h = hid"
    using display_hotel_split by blast
  let ?hr = "h\<lparr>rooms_available := rooms_available h - 1\<rparr>"
  have res: "reserve_room_scan hid records = Inr (pre @ ?hr # post)"
    using assms(3) by (simp add: split reserve_room_scan_first [OF pre h])
  have hr: "hotel_id ?hr = hid" using h by simp
  have undo: "?hr\<lparr>rooms_available := rooms_available ?hr + 1\<rparr> = h" by simp
  have can: "hotel_cancel_scan hid (pre @ ?hr # post) = Inr records"
    using assms(2) by (simp add: hotel_cancel_scan_first [OF pre hr] hotel_inv_def split)
  show ?thesis
    by (simp add: reserve_room_def hotel_cancel_reservation_def res can)
qed

theorem reserve_then_cancel_restores_witness:
  "display_hotel ''H1'' [plaza, grand] = Some grand \<and> hotel_inv grand
   \<and> 0 < rooms_available grand
   \<and> fst (reserve_room ''H1'' [plaza, grand]) = Inr ()
   \<and> fst (hotel_cancel_reservation ''H1'' (snd (reserve_room ''H1'' [plaza, grand]))) = Inr ()
   \<and> snd (hotel_cancel_reservation ''H1'' (snd (reserve_room ''H1'' [plaza, grand])))
       = [plaza, grand]"
proof -
  have found: "display_hotel ''H1'' [plaza, grand] = Some grand"
    by (simp add: plaza_def grand_def)
  have inv: "hotel_inv grand"
    by (simp add: hotel_inv_def grand_def)
  have avail: "0 < rooms_available grand"
    by (simp add: grand_def)
  show ?thesis
    using found inv avail reserve_then_cancel_restores [OF found inv avail]
    by simp
qed

section \<open>Hotel store: changing the number of rooms\<close>

text \<open>
  Claim C6. If the hotel with the given id exists and \<^verbatim>\<open>modify_hotel\<close> is
  given a positive integer \<open>n\<close> as the new number of rooms, the call succeeds and that
  hotel then has \<open>rooms = n\<close> and
  \<open>rooms_available = max 0 (old rooms_available + (n - old rooms))\<close>: bounded below
  by 0, with no bound above.
\<close>

theorem modify_hotel_rooms:
  assumes "display_hotel hid records = Some h"
    and "kw_rooms kw = Some (IntArg n)"
    and "0 < n"
  shows "fst (modify_hotel hid kw records) = Inr ()
       \<and> map_option rooms (display_hotel hid (snd (modify_hotel hid kw records))) = Some n
       \<and> map_option rooms_available (display_hotel hid (snd (modify_hotel hid kw records)))
           = Some (max 0 (rooms_available h + (n - rooms h)))"
proof -
  from assms(1) obtain pre post where
    split: "records = pre @ h # post" and pre: "\<forall>x\<in>set pre. hotel_id x \<noteq> hid"
    and h: "hotel_id h = hid"
    using display_hotel_split by blast
  let ?hm = "set_hotel_keys kw (h\<lparr>rooms_available := max 0 (rooms_available h + (n - rooms h))\<rparr>)"
  have scan: "modify_hotel_scan hid kw records = Inr (pre @ ?hm # post)"
    by (simp add: split modify_hotel_scan_first [OF pre h assms(2) assms(3)])
  have hm: "hotel_id ?hm = hid" using h by (simp add: set_hotel_keys_def)
  have found: "display_hotel hid (pre @ ?hm # post) = Some ?hm"
    using pre hm by (rule display_hotel_first)
  have r: "rooms ?hm = n"
    using assms(2) by (simp add: set_hotel_keys_def)
  have a: "rooms_available ?hm = max 0 (rooms_available h + (n - rooms h))"
    by (simp add: set_hotel_keys_def)
  show ?thesis
    by (simp add: modify_hotel_def scan found r a)
qed

theorem modify_hotel_rooms_witness:
  "display_hotel ''H1'' [plaza, grand] = Some grand \<and> kw_rooms rooms3 = Some (IntArg 3)
   \<and> (0::int) < 3
   \<and> fst (modify_hotel ''H1'' rooms3 [plaza, grand]) = Inr ()
   \<and> map_option rooms (display_hotel ''H1'' (snd (modify_hotel ''H1'' rooms3 [plaza, grand])))
       = Some 3
   \<and> map_option rooms_available
         (display_hotel ''H1'' (snd (modify_hotel ''H1'' rooms3 [plaza, grand])))
       = Some (max 0 (rooms_available grand + (3 - rooms grand)))"
proof -
  have found: "display_hotel ''H1'' [plaza, grand] = Some grand"
    by (simp add: plaza_def grand_def)
  have arg: "kw_rooms rooms3 = Some (IntArg 3)"
    by (simp add: rooms3_def)
  have pos: "(0::int) < 3"
    by simp
  show ?thesis
    using found arg modify_hotel_rooms [OF found arg pos]
    by simp
qed

text \<open>
  The value is not bounded by the new capacity: on a record that already has more rooms
  available than rooms, the result exceeds the new number of rooms.
\<close>

lemma modify_hotel_above_capacity:
  "snd (modify_hotel ''H9'' rooms3 [overfull])
     = [\<lparr>hotel_id = ''H9'', hotel_name = ''Mar'', location = ''MTY'', rooms = 3,
         rooms_available = 8\<rparr>]"
  by (simp add: modify_hotel_def overfull_def rooms3_def validate_rooms_def set_hotel_keys_def)

section \<open>Customer store: changing a customer\<close>

lemma display_customer_None:
  "(display_customer cid rs = None) = (\<not> list_ex (\<lambda>r. customer_id r = cid) rs)"
  by (induction rs) auto

lemma display_customer_split:
  "display_customer cid rs = Some c \<Longrightarrow>
   \<exists>pre post. rs = pre @ c # post \<and> (\<forall>x\<in>set pre. customer_id x \<noteq> cid) \<and> customer_id c = cid"
proof (induction rs)
  case Nil
  then show ?case by simp
next
  case (Cons r rs)
  show ?case
  proof (cases "customer_id r = cid")
    case True
    with Cons.prems have "r # rs = [] @ c # rs \<and> (\<forall>x\<in>set []. customer_id x \<noteq> cid)
        \<and> customer_id c = cid"
      by simp
    then show ?thesis by blast
  next
    case False
    with Cons obtain pre post where
      "rs = pre @ c # post" "\<forall>x\<in>set pre. customer_id x \<noteq> cid" "customer_id c = cid"
      by auto
    with False have "r # rs = (r # pre) @ c # post
        \<and> (\<forall>x\<in>set (r # pre). customer_id x \<noteq> cid) \<and> customer_id c = cid"
      by simp
    then show ?thesis by blast
  qed
qed

lemma modify_customer_scan_first:
  "\<forall>x\<in>set pre. customer_id x \<noteq> cid \<Longrightarrow> customer_id c = cid \<Longrightarrow>
   modify_customer_scan cid kw (pre @ c # post) =
     (case ckw_email kw of
        None \<Rightarrow> Inr (pre @ set_customer_keys kw c # post)
      | Some em \<Rightarrow> if validate_email em then Inr (pre @ set_customer_keys kw c # post)
                   else Inl InvalidEmail)"
  by (induction pre) (auto split: option.splits)

lemma modify_customer_scan_None:
  "display_customer cid rs = None \<Longrightarrow> modify_customer_scan cid kw rs = Inl CustomerNotFound"
  by (induction rs) (auto split: if_splits)

text \<open>
  Claim C7. \<^verbatim>\<open>modify_customer\<close> fails, and saves nothing, when no record has
  the id or when an email is supplied that is empty or has no at sign. Otherwise it
  succeeds, and the saved list is the old one with the first record of that id updated
  in the supplied fields only: its id, its unsupplied fields and every other record are
  as before.
\<close>

theorem modify_customer_outcome:
  "((display_customer cid records = None
       \<or> (\<exists>em. ckw_email kw = Some em \<and> \<not> validate_email em)) \<longrightarrow>
      (\<exists>e. fst (modify_customer cid kw records) = Inl e)
      \<and> snd (modify_customer cid kw records) = records)
   \<and> (\<not> (display_customer cid records = None
          \<or> (\<exists>em. ckw_email kw = Some em \<and> \<not> validate_email em)) \<longrightarrow>
      fst (modify_customer cid kw records) = Inr ()
      \<and> (\<exists>pre c post.
            records = pre @ c # post \<and> (\<forall>x\<in>set pre. customer_id x \<noteq> cid)
            \<and> customer_id c = cid
            \<and> snd (modify_customer cid kw records) =
                pre @ c\<lparr>customer_name := (case ckw_name kw of None \<Rightarrow> customer_name c | Some v \<Rightarrow> v),
                         email := (case ckw_email kw of None \<Rightarrow> email c | Some v \<Rightarrow> v)\<rparr>
                  # post))"
proof (cases "display_customer cid records")
  case None
  then show ?thesis
    by (simp add: modify_customer_def modify_customer_scan_None)
next
  case (Some c)
  then obtain pre post where
    recs: "records = pre @ c # post" and pre: "\<forall>x\<in>set pre. customer_id x \<noteq> cid"
    and c: "customer_id c = cid"
    using display_customer_split by blast
  have scan: "modify_customer_scan cid kw records =
     (case ckw_email kw of
        None \<Rightarrow> Inr (pre @ set_customer_keys kw c # post)
      | Some em \<Rightarrow> if validate_email em then Inr (pre @ set_customer_keys kw c # post)
                   else Inl InvalidEmail)"
    unfolding recs using pre c by (rule modify_customer_scan_first)
  show ?thesis
  proof (cases "\<exists>em. ckw_email kw = Some em \<and> \<not> validate_email em")
    case True
    then show ?thesis
      by (auto simp: modify_customer_def scan)
  next
    case False
    then have ok: "modify_customer_scan cid kw records = Inr (pre @ set_customer_keys kw c # post)"
      by (auto simp: scan split: option.splits)
    have saved: "snd (modify_customer cid kw records) =
                pre @ c\<lparr>customer_name := (case ckw_name kw of None \<Rightarrow> customer_name c | Some v \<Rightarrow> v),
                         email := (case ckw_email kw of None \<Rightarrow> email c | Some v \<Rightarrow> v)\<rparr>
                  # post"
      by (simp add: modify_customer_def ok set_customer_keys_def)
    from recs pre c saved have "\<exists>pre c post. records = pre @ c # post \<and> (\<forall>x\<in>set pre. customer_id x \<noteq> cid)
       \<and> customer_id c = cid
       \<and> snd (modify_customer cid kw records) =
                pre @ c\<lparr>customer_name := (case ckw_name kw of None \<Rightarrow> customer_name c | Some v \<Rightarrow> v),
                         email := (case ckw_email kw of None \<Rightarrow> email c | Some v \<Rightarrow> v)\<rparr>
                  # post"
      by blast
    with False Some show ?thesis
      by (simp add: modify_customer_def ok)
  qed
qed


text \<open>
  A new valid email for an existing customer, and an invalid one.
\<close>

theorem modify_customer_outcome_witness:
  "\<not> (display_customer ''C1'' [luis, ana] = None
        \<or> (\<exists>em. ckw_email new_email = Some em \<and> \<not> validate_email em))
   \<and> fst (modify_customer ''C1'' new_email [luis, ana]) = Inr ()
   \<and> (\<exists>pre c post.
         [luis, ana] = pre @ c # post \<and> (\<forall>x\<in>set pre. customer_id x \<noteq> ''C1'')
         \<and> customer_id c = ''C1''
         \<and> snd (modify_customer ''C1'' new_email [luis, ana]) =
             pre @ c\<lparr>customer_name := (case ckw_name new_email of None \<Rightarrow> customer_name c | Some v \<Rightarrow> v),
                      email := (case ckw_email new_email of None \<Rightarrow> email c | Some v \<Rightarrow> v)\<rparr>
               # post)
   \<and> (display_customer ''C1'' [luis, ana] = None
        \<or> (\<exists>em. ckw_email bad_email = Some em \<and> \<not> validate_email em))
   \<and> (\<exists>e. fst (modify_customer ''C1'' bad_email [luis, ana]) = Inl e)
   \<and> snd (modify_customer ''C1'' bad_email [luis, ana]) = [luis, ana]"
proof -
  have good: "\<not> (display_customer ''C1'' [luis, ana] = None
        \<or> (\<exists>em. ckw_email new_email = Some em \<and> \<not> validate_email em))"
    by (simp add: luis_def ana_def new_email_def validate_email_def)
  have bad: "display_customer ''C1'' [luis, ana] = None
        \<or> (\<exists>em. ckw_email bad_email = Some em \<and> \<not> validate_email em)"
    by (simp add: bad_email_def validate_email_def)
  show ?thesis
    using good bad modify_customer_outcome [of "''C1''" "[luis, ana]" new_email]
      modify_customer_outcome [of "''C1''" "[luis, ana]" bad_email]
    by blast
qed

section \<open>Creating a record under an id already in use\<close>

lemma find_reservation_None:
  "(find_reservation rid rs = None) = (\<not> list_ex (\<lambda>r. reservation_id r = rid) rs)"
  by (induction rs) auto

text \<open>
  Claim C5. In each of the three stores, a create call whose id is already in the store
  fails, and the store is the same after the call as before it.
\<close>

theorem create_duplicate_id_fails:
  "(list_ex (\<lambda>r. customer_id r = cid) customers \<longrightarrow>
      (\<exists>e. fst (create_customer cid nm em customers) = Inl e)
      \<and> snd (create_customer cid nm em customers) = customers)
   \<and> (list_ex (\<lambda>r. hotel_id r = hid) hotels \<longrightarrow>
      (\<exists>e. fst (create_hotel hid hnm loc rm hotels) = Inl e)
      \<and> snd (create_hotel hid hnm loc rm hotels) = hotels)
   \<and> (list_ex (\<lambda>r. reservation_id r = rid) (reservations_json st) \<longrightarrow>
      (\<exists>e. fst (create_reservation rid rcid rhid st) = Inl e)
      \<and> snd (create_reservation rid rcid rhid st) = st)"
  by (auto simp: create_customer_def create_hotel_def create_reservation_def Let_def
           split: rooms_arg.splits)

theorem create_duplicate_id_fails_witness:
  "list_ex (\<lambda>r. customer_id r = ''C1'') [ana]
   \<and> (\<exists>e. fst (create_customer ''C1'' ''Eva'' ''eva@example.com'' [ana]) = Inl e)
   \<and> snd (create_customer ''C1'' ''Eva'' ''eva@example.com'' [ana]) = [ana]
   \<and> list_ex (\<lambda>r. hotel_id r = ''H1'') [plaza, grand]
   \<and> (\<exists>e. fst (create_hotel ''H1'' ''Sol'' ''MID'' (IntArg 4) [plaza, grand]) = Inl e)
   \<and> snd (create_hotel ''H1'' ''Sol'' ''MID'' (IntArg 4) [plaza, grand]) = [plaza, grand]
   \<and> list_ex (\<lambda>r. reservation_id r = ''R1'') (reservations_json full_store)
   \<and> (\<exists>e. fst (create_reservation ''R1'' ''C1'' ''H1'' full_store) = Inl e)
   \<and> snd (create_reservation ''R1'' ''C1'' ''H1'' full_store) = full_store"
proof -
  have c: "list_ex (\<lambda>r. customer_id r = ''C1'') [ana]"
    by (simp add: ana_def)
  have h: "list_ex (\<lambda>r. hotel_id r = ''H1'') [plaza, grand]"
    by (simp add: grand_def)
  have r: "list_ex (\<lambda>r. reservation_id r = ''R1'') (reservations_json full_store)"
    by (simp add: full_store_def booking_def)
  show ?thesis
    using c h r
      create_duplicate_id_fails [of "''C1''" "[ana]" "''Eva''" "''eva@example.com''"
        "''H1''" "[plaza, grand]" "''Sol''" "''MID''" "IntArg 4" "''R1''" full_store "''C1''" "''H1''"]
    by blast
qed

section \<open>Reservation store: creating a reservation\<close>

lemma reserve_room_missing:
  "display_hotel hid rs = None \<Longrightarrow> reserve_room hid rs = (Inl HotelNotFound, rs)"
  by (simp add: reserve_room_def hotel_scan_None)








text \<open>
  Outside that range the guard still refuses: on a hotel file that holds a negative
  count, \<^verbatim>\<open>reserve_room\<close> finds \<open>rooms_available \<le> 0\<close> and the reservation is
  not made.
\<close>

lemma create_reservation_negative_count:
  "find_reservation ''R1'' (reservations_json debt_store) = None
   \<and> display_customer ''C1'' (customers_json debt_store) = Some ana
   \<and> display_hotel ''H7'' (hotels_json debt_store) = Some debt
   \<and> fst (create_reservation ''R1'' ''C1'' ''H7'' debt_store) = Inl NoRooms"
  by (simp add: debt_store_def debt_def ana_def create_reservation_def reserve_room_def)

text \<open>
  Claim C9. When \<^verbatim>\<open>create_reservation\<close> fails, for whatever cause, the three
  files are as they were: neither the reservation file nor the hotel file is written.
\<close>

theorem create_reservation_failure_writes_nothing:
  assumes "fst (create_reservation rid cid hid st) = Inl e"
  shows "snd (create_reservation rid cid hid st) = st"
  using assms
  by (auto simp: create_reservation_def Let_def reserve_room_def
           split: if_splits prod.splits sum.splits)

text \<open>
  A hotel with no room left.
\<close>

theorem create_reservation_failure_writes_nothing_witness:
  "fst (create_reservation ''R3'' ''C1'' ''H5'' sold_out_store) = Inl NoRooms
   \<and> snd (create_reservation ''R3'' ''C1'' ''H5'' sold_out_store) = sold_out_store"
proof -
  have failed: "fst (create_reservation ''R3'' ''C1'' ''H5'' sold_out_store) = Inl NoRooms"
    by (simp add: create_reservation_def sold_out_store_def sold_out_def ana_def reserve_room_def)
  show ?thesis
    using failed create_reservation_failure_writes_nothing [OF failed]
    by simp
qed

section \<open>Reservation store: cancelling a reservation\<close>

lemma hotel_cancel_missing:
  "display_hotel hid rs = None \<Longrightarrow> hotel_cancel_reservation hid rs = (Inl HotelNotFound, rs)"
  by (simp add: hotel_cancel_reservation_def hotel_scan_None)

lemma hotel_cancel_all_available:
  assumes "display_hotel hid rs = Some h" and "rooms h \<le> rooms_available h"
  shows "hotel_cancel_reservation hid rs = (Inl AllAvailable, rs)"
proof -
  from assms(1) obtain pre post where
    recs: "rs = pre @ h # post" and pre: "\<forall>x\<in>set pre. hotel_id x \<noteq> hid"
    and h: "hotel_id h = hid"
    using display_hotel_split by blast
  have "hotel_cancel_scan hid rs = Inl AllAvailable"
    using assms(2) by (simp add: recs hotel_cancel_scan_first [OF pre h])
  then show ?thesis by (simp add: hotel_cancel_reservation_def)
qed

lemma hotel_cancel_released:
  assumes "display_hotel hid rs = Some h" and "rooms_available h < rooms h"
  shows "\<exists>pre post. rs = pre @ h # post \<and> (\<forall>x\<in>set pre. hotel_id x \<noteq> hid)
           \<and> hotel_cancel_reservation hid rs
               = (Inr (), pre @ h\<lparr>rooms_available := rooms_available h + 1\<rparr> # post)"
proof -
  from assms(1) obtain pre post where
    recs: "rs = pre @ h # post" and pre: "\<forall>x\<in>set pre. hotel_id x \<noteq> hid"
    and h: "hotel_id h = hid"
    using display_hotel_split by blast
  have "hotel_cancel_scan hid rs = Inr (pre @ h\<lparr>rooms_available := rooms_available h + 1\<rparr> # post)"
    using assms(2) by (simp add: recs hotel_cancel_scan_first [OF pre h])
  then have "hotel_cancel_reservation hid rs
      = (Inr (), pre @ h\<lparr>rooms_available := rooms_available h + 1\<rparr> # post)"
    by (simp add: hotel_cancel_reservation_def)
  with recs pre show ?thesis by blast
qed

lemma cancel_reservation_found:
  "find_reservation rid (reservations_json st) = Some target \<Longrightarrow>
   cancel_reservation rid st =
     (Inr (),
      st\<lparr>hotels_json := snd (hotel_cancel_reservation (res_hotel_id target) (hotels_json st)),
         reservations_json := filter (\<lambda>r. reservation_id r \<noteq> rid) (reservations_json st)\<rparr>)"
  by (simp add: cancel_reservation_def Let_def)

text \<open>
  Claim C2, as amended. If the reservation store has a reservation with the given id,
  and the hotel it refers to is in the hotel store with \<open>rooms_available < rooms\<close>,
  then \<^verbatim>\<open>Reservation.cancel_reservation\<close> succeeds, removes every record with
  that reservation id, and raises \<open>rooms_available\<close> of that hotel by exactly one,
  every other hotel record and the customer store unchanged.
\<close>

theorem cancel_reservation_releases_room:
  assumes "find_reservation rid (reservations_json st) = Some target"
    and "display_hotel (res_hotel_id target) (hotels_json st) = Some h"
    and "rooms_available h < rooms h"
  shows "fst (cancel_reservation rid st) = Inr ()
       \<and> reservations_json (snd (cancel_reservation rid st))
           = filter (\<lambda>r. reservation_id r \<noteq> rid) (reservations_json st)
       \<and> find_reservation rid (reservations_json (snd (cancel_reservation rid st))) = None
       \<and> customers_json (snd (cancel_reservation rid st)) = customers_json st
       \<and> (\<exists>pre post.
             hotels_json st = pre @ h # post
             \<and> (\<forall>x\<in>set pre. hotel_id x \<noteq> res_hotel_id target)
             \<and> hotels_json (snd (cancel_reservation rid st))
                 = pre @ h\<lparr>rooms_available := rooms_available h + 1\<rparr> # post)"
proof -
  note cancelled = cancel_reservation_found [OF assms(1)]
  have gone: "find_reservation rid (filter (\<lambda>r. reservation_id r \<noteq> rid) (reservations_json st)) = None"
    by (simp add: find_reservation_None list_ex_iff)
  from hotel_cancel_released [OF assms(2) assms(3)] obtain pre post where
    recs: "hotels_json st = pre @ h # post"
    and pre: "\<forall>x\<in>set pre. hotel_id x \<noteq> res_hotel_id target"
    and rel: "hotel_cancel_reservation (res_hotel_id target) (hotels_json st)
               = (Inr (), pre @ h\<lparr>rooms_available := rooms_available h + 1\<rparr> # post)"
    by blast
  have "hotels_json (snd (cancel_reservation rid st))
      = pre @ h\<lparr>rooms_available := rooms_available h + 1\<rparr> # post"
    by (simp add: cancelled rel)
  with recs pre have hotels: "\<exists>pre post.
             hotels_json st = pre @ h # post
             \<and> (\<forall>x\<in>set pre. hotel_id x \<noteq> res_hotel_id target)
             \<and> hotels_json (snd (cancel_reservation rid st))
                 = pre @ h\<lparr>rooms_available := rooms_available h + 1\<rparr> # post"
    by blast
  show ?thesis
    using hotels gone by (simp add: cancelled)
qed

theorem cancel_reservation_releases_room_witness:
  "find_reservation ''R2'' (reservations_json full_store) = Some stay
   \<and> display_hotel (res_hotel_id stay) (hotels_json full_store) = Some grand
   \<and> rooms_available grand < rooms grand
   \<and> fst (cancel_reservation ''R2'' full_store) = Inr ()
   \<and> reservations_json (snd (cancel_reservation ''R2'' full_store))
       = filter (\<lambda>r. reservation_id r \<noteq> ''R2'') (reservations_json full_store)
   \<and> find_reservation ''R2'' (reservations_json (snd (cancel_reservation ''R2'' full_store))) = None
   \<and> customers_json (snd (cancel_reservation ''R2'' full_store)) = customers_json full_store
   \<and> (\<exists>pre post.
         hotels_json full_store = pre @ grand # post
         \<and> (\<forall>x\<in>set pre. hotel_id x \<noteq> res_hotel_id stay)
         \<and> hotels_json (snd (cancel_reservation ''R2'' full_store))
             = pre @ grand\<lparr>rooms_available := rooms_available grand + 1\<rparr> # post)"
proof -
  have found: "find_reservation ''R2'' (reservations_json full_store) = Some stay"
    by (simp add: full_store_def booking_def stay_def)
  have hotel: "display_hotel (res_hotel_id stay) (hotels_json full_store) = Some grand"
    by (simp add: full_store_def stay_def plaza_def grand_def)
  have room: "rooms_available grand < rooms grand"
    by (simp add: grand_def)
  show ?thesis
    using found hotel room cancel_reservation_releases_room [OF found hotel room]
    by blast
qed

text \<open>
  The claim as first stated promises the released room for every store that has the
  reservation. When the hotel already has all its rooms available, the reservation is
  removed and the count stays where it was.
\<close>

theorem cancel_reservation_full_hotel_counterexample:
  "find_reservation ''R1'' (reservations_json full_store) = Some booking
   \<and> display_hotel (res_hotel_id booking) (hotels_json full_store) = Some plaza
   \<and> fst (cancel_reservation ''R1'' full_store) = Inr ()
   \<and> map_option rooms_available
        (display_hotel (res_hotel_id booking) (hotels_json (snd (cancel_reservation ''R1'' full_store))))
       = Some (rooms_available plaza)
   \<and> map_option rooms_available
        (display_hotel (res_hotel_id booking) (hotels_json (snd (cancel_reservation ''R1'' full_store))))
       \<noteq> Some (rooms_available plaza + 1)"
  by (simp add: full_store_def booking_def stay_def plaza_def grand_def cancel_reservation_def
        hotel_cancel_reservation_def)

text \<open>
  Claim C10. If the reservation store has a reservation with the given id,
  \<^verbatim>\<open>Reservation.cancel_reservation\<close> returns success and removes the records
  with that id, whatever \<^verbatim>\<open>Hotel.cancel_reservation\<close> returns. In particular,
  when the referenced hotel is not in the hotel store, or has
  \<open>rooms_available \<ge> rooms\<close>, the release fails, its result is dropped and the hotel
  store is unchanged.
\<close>

theorem cancel_reservation_ignores_release_failure:
  assumes "find_reservation rid (reservations_json st) = Some target"
  shows "fst (cancel_reservation rid st) = Inr ()
       \<and> reservations_json (snd (cancel_reservation rid st))
           = filter (\<lambda>r. reservation_id r \<noteq> rid) (reservations_json st)
       \<and> find_reservation rid (reservations_json (snd (cancel_reservation rid st))) = None
       \<and> ((display_hotel (res_hotel_id target) (hotels_json st) = None
            \<or> (\<exists>h. display_hotel (res_hotel_id target) (hotels_json st) = Some h
                    \<and> rooms h \<le> rooms_available h)) \<longrightarrow>
           (\<exists>e. fst (hotel_cancel_reservation (res_hotel_id target) (hotels_json st)) = Inl e)
           \<and> hotels_json (snd (cancel_reservation rid st)) = hotels_json st)"
proof -
  note cancelled = cancel_reservation_found [OF assms]
  have gone: "find_reservation rid (filter (\<lambda>r. reservation_id r \<noteq> rid) (reservations_json st)) = None"
    by (simp add: find_reservation_None list_ex_iff)
  have fails: "(\<exists>e. fst (hotel_cancel_reservation (res_hotel_id target) (hotels_json st)) = Inl e)
           \<and> hotels_json (snd (cancel_reservation rid st)) = hotels_json st"
    if "display_hotel (res_hotel_id target) (hotels_json st) = None
            \<or> (\<exists>h. display_hotel (res_hotel_id target) (hotels_json st) = Some h
                    \<and> rooms h \<le> rooms_available h)"
    using that
  proof
    assume "display_hotel (res_hotel_id target) (hotels_json st) = None"
    then show ?thesis by (simp add: cancelled hotel_cancel_missing)
  next
    assume "\<exists>h. display_hotel (res_hotel_id target) (hotels_json st) = Some h
                    \<and> rooms h \<le> rooms_available h"
    then obtain h where "display_hotel (res_hotel_id target) (hotels_json st) = Some h"
      and "rooms h \<le> rooms_available h" by blast
    then show ?thesis by (simp add: cancelled hotel_cancel_all_available)
  qed
  show ?thesis
    using fails gone by (simp add: cancelled)
qed

theorem cancel_reservation_ignores_release_failure_witness:
  "find_reservation ''R1'' (reservations_json full_store) = Some booking
   \<and> (display_hotel (res_hotel_id booking) (hotels_json full_store) = None
        \<or> (\<exists>h. display_hotel (res_hotel_id booking) (hotels_json full_store) = Some h
                \<and> rooms h \<le> rooms_available h))
   \<and> fst (cancel_reservation ''R1'' full_store) = Inr ()
   \<and> reservations_json (snd (cancel_reservation ''R1'' full_store))
       = filter (\<lambda>r. reservation_id r \<noteq> ''R1'') (reservations_json full_store)
   \<and> find_reservation ''R1'' (reservations_json (snd (cancel_reservation ''R1'' full_store))) = None
   \<and> (\<exists>e. fst (hotel_cancel_reservation (res_hotel_id booking) (hotels_json full_store)) = Inl e)
   \<and> hotels_json (snd (cancel_reservation ''R1'' full_store)) = hotels_json full_store"
proof -
  have found: "find_reservation ''R1'' (reservations_json full_store) = Some booking"
    by (simp add: full_store_def booking_def)
  have full: "display_hotel (res_hotel_id booking) (hotels_json full_store) = None
        \<or> (\<exists>h. display_hotel (res_hotel_id booking) (hotels_json full_store) = Some h
                \<and> rooms h \<le> rooms_available h)"
    by (simp add: full_store_def booking_def plaza_def)
  show ?thesis
    using found full cancel_reservation_ignores_release_failure [OF found]
    by blast
qed

section \<open>Loading a store: what is caught and what is not\<close>

text \<open>
  A missing file, a file that cannot be opened, and a file whose text the parser rejects
  all give the empty list.
\<close>

lemma load_all_missing:
  "files (case file_path of None \<Rightarrow> data_file | Some p \<Rightarrow> if p = [] then data_file else p) = None \<Longrightarrow>
   load_all data_file json_loads files file_path = Inr (Records [])"
  by (simp add: load_all_def)

lemma load_all_unopenable:
  "files (case file_path of None \<Rightarrow> data_file | Some p \<Rightarrow> if p = [] then data_file else p)
     = Some Unopenable \<Longrightarrow>
   load_all data_file json_loads files file_path = Inr (Records [])"
  by (simp add: load_all_def read_json_def)

lemma load_all_malformed:
  "files (case file_path of None \<Rightarrow> data_file | Some p \<Rightarrow> if p = [] then data_file else p)
     = Some (Content bs) \<Longrightarrow>
   utf8_decode bs = Some text \<Longrightarrow> json_loads text = None \<Longrightarrow>
   load_all data_file json_loads files file_path = Inr (Records [])"
  by (simp add: load_all_def read_json_def)

text \<open>
  The file of the hotel tests, \<^verbatim>\<open>{inv\<close> and so on, cut to four bytes.
\<close>

lemma load_all_scribbled:
  "Hotel_load_all reject_all scribbled None = Inr (Records [])"
  by (simp add: Hotel_load_all_def load_all_def read_json_def scribbled_def reject_all_def)

text \<open>
  A file whose bytes are not UTF-8 raises \<^verbatim>\<open>UnicodeDecodeError\<close> while it is
  read, whatever the parser would do.
\<close>

lemma load_all_undecodable:
  "files (case file_path of None \<Rightarrow> data_file | Some p \<Rightarrow> if p = [] then data_file else p)
     = Some (Content bs) \<Longrightarrow>
   utf8_decode bs = None \<Longrightarrow>
   load_all data_file json_loads files file_path = Inl UnicodeDecodeError"
  by (simp add: load_all_def read_json_def)

text \<open>
  Claim C8 says that \<^verbatim>\<open>load_all\<close> of every store returns the empty collection,
  and signals no error to the caller, for a missing file and for a file whose contents are
  not valid JSON. The code does so for a missing file and for text that is not JSON. A
  file holding the single byte 0xFF is not valid JSON either, and there
  \<^verbatim>\<open>load_all\<close> of each store raises \<^verbatim>\<open>UnicodeDecodeError\<close>, for every path
  and every parser: the exception is neither of the two that are caught.
\<close>

theorem load_all_raises_on_undecodable_file:
  "Customer_load_all json_loads_c garbled path_c = Inl UnicodeDecodeError
   \<and> Hotel_load_all json_loads_h garbled path_h = Inl UnicodeDecodeError
   \<and> Reservation_load_all json_loads_r garbled path_r = Inl UnicodeDecodeError"
  by (simp add: Customer_load_all_def Hotel_load_all_def Reservation_load_all_def
        load_all_def read_json_def garbled_def)

end
